theory Spec2Isabelle
  imports Main "HOL-Library.Sublist"
begin

section \<open>Python strings\<close>

text \<open>
  A Python \<open>str\<close> is a sequence of Unicode code points, so it is modelled as a list of
  natural numbers (the code points).  The regular expressions of the program speak about
  code points beyond one byte (\<open>\u3000\<close>), and its literals are Chinese; a byte string
  would count and match differently.
\<close>

type_synonym ustr = "nat list"

definition ascii :: "string \<Rightarrow> ustr" where
  "ascii s = map of_char s"

text \<open>
  \<open>is_space\<close> is the set of code points for which Python's \<open>str.isspace\<close> holds; the
  class \<open>\s\<close> of \<open>re\<close> on \<open>str\<close> patterns and \<open>str.strip()\<close> both use it.
\<close>

definition is_space :: "nat \<Rightarrow> bool" where
  "is_space c \<longleftrightarrow>
     (9 \<le> c \<and> c \<le> 13) \<or> (28 \<le> c \<and> c \<le> 32) \<or> c = 133 \<or> c = 160 \<or> c = 5760 \<or>
     (8192 \<le> c \<and> c \<le> 8202) \<or> c = 8232 \<or> c = 8233 \<or> c = 8239 \<or> c = 8287 \<or>
     c = 12288"

definition strip :: "ustr \<Rightarrow> ustr" where
  "strip s = rev (dropWhile is_space (rev (dropWhile is_space s)))"

text \<open>\<open>sep.join(xs)\<close>\<close>

fun join :: "ustr \<Rightarrow> ustr list \<Rightarrow> ustr" where
  "join sep [] = []"
| "join sep [x] = x"
| "join sep (x # y # ys) = x @ sep @ join sep (y # ys)"


section \<open>TextNormalizer: \<open>read_word_file\<close>\<close>





section \<open>Python values, exceptions and the outside world\<close>

text \<open>
  A value decoded from JSON: \<open>None\<close>, \<open>bool\<close>, \<open>int\<close>, \<open>float\<close>, \<open>str\<close>, \<open>list\<close>
  or \<open>dict\<close> (an association list in insertion order, keys distinct).  A float is
  represented by its \<open>repr\<close>, which identifies the double; the program only ever prints
  floats.
\<close>

datatype json =
    JNull
  | JBool bool
  | JInt int
  | JFloat ustr
  | JStr ustr
  | JList "json list"
  | JDict "(ustr \<times> json) list"

text \<open>
  A cell value of a worksheet row (\<open>iter_rows(values_only=True)\<close>): \<open>None\<close>, a bool, an
  int, a float (its \<open>repr\<close>), a string, or another object such as a \<open>datetime\<close>, given
  by its class name and its \<open>str()\<close>.
\<close>

datatype cell =
    CNone
  | CBool bool
  | CInt int
  | CFloat ustr
  | CStr ustr
  | CObj ustr ustr

text \<open>
  Exceptions, each with its \<open>str(e)\<close>.  The program catches \<open>Exception\<close> only, so the
  class never decides control flow.
\<close>

datatype exn =
    IndexError ustr
  | KeyError ustr
  | TypeError ustr
  | ValueError ustr
  | AttributeError ustr
  | JSONDecodeError ustr
  | HTTPError ustr
  | RequestException ustr
  | OSError ustr

fun exn_str :: "exn \<Rightarrow> ustr" where
  "exn_str (IndexError m) = m"
| "exn_str (KeyError m) = m"
| "exn_str (TypeError m) = m"
| "exn_str (ValueError m) = m"
| "exn_str (AttributeError m) = m"
| "exn_str (JSONDecodeError m) = m"
| "exn_str (HTTPError m) = m"
| "exn_str (RequestException m) = m"
| "exn_str (OSError m) = m"

text \<open>Sequencing of steps that may raise.\<close>

definition and_then :: "exn + 'a \<Rightarrow> ('a \<Rightarrow> exn + 'b) \<Rightarrow> exn + 'b" where
  "and_then m f = (case m of Inl e \<Rightarrow> Inl e | Inr x \<Rightarrow> f x)"

text \<open>A text between single quotes.\<close>

definition quoted :: "ustr \<Rightarrow> ustr" where
  "quoted s = [39] @ s @ [39]"

text \<open>\<open>str(n)\<close> for an integer.\<close>

function digits :: "nat \<Rightarrow> ustr" where
  "digits n = (if n < 10 then [48 + n] else digits (n div 10) @ [48 + n mod 10])"
  by pat_completeness auto
termination
  by (relation "measure id") auto

declare digits.simps [simp del]

definition str_int :: "int \<Rightarrow> ustr" where
  "str_int i = (if i < 0 then 45 # digits (nat (- i)) else digits (nat i))"

text \<open>The name of the class of a decoded value, as Python's error messages print it.\<close>

fun type_name :: "json \<Rightarrow> ustr" where
  "type_name JNull = ascii ''NoneType''"
| "type_name (JBool b) = ascii ''bool''"
| "type_name (JInt i) = ascii ''int''"
| "type_name (JFloat r) = ascii ''float''"
| "type_name (JStr s) = ascii ''str''"
| "type_name (JList xs) = ascii ''list''"
| "type_name (JDict kvs) = ascii ''dict''"

text \<open>
  \<open>str(v)\<close>.  The \<open>repr\<close> of a list or dict quotes its strings by the Unicode database;
  it is a parameter.
\<close>

fun py_str :: "(json \<Rightarrow> ustr) \<Rightarrow> json \<Rightarrow> ustr" where
  "py_str rp JNull = ascii ''None''"
| "py_str rp (JBool b) = (if b then ascii ''True'' else ascii ''False'')"
| "py_str rp (JInt i) = str_int i"
| "py_str rp (JFloat r) = r"
| "py_str rp (JStr s) = s"
| "py_str rp (JList xs) = rp (JList xs)"
| "py_str rp (JDict kvs) = rp (JDict kvs)"

fun str_cell :: "cell \<Rightarrow> ustr" where
  "str_cell CNone = ascii ''None''"
| "str_cell (CBool b) = (if b then ascii ''True'' else ascii ''False'')"
| "str_cell (CInt i) = str_int i"
| "str_cell (CFloat r) = r"
| "str_cell (CStr s) = s"
| "str_cell (CObj cls s) = s"

text \<open>
  \<open>v[key]\<close> for a string key: a dict looks the key up and raises \<open>KeyError\<close> (whose
  \<open>str\<close> is the quoted key; the keys used are plain ASCII words) when it is missing;
  every other value raises \<open>TypeError\<close>.
\<close>

fun subscript :: "json \<Rightarrow> ustr \<Rightarrow> exn + json" where
  "subscript (JDict kvs) key =
     (case map_of kvs key of
        None \<Rightarrow> Inl (KeyError (quoted key))
      | Some v \<Rightarrow> Inr v)"
| "subscript (JList xs) key =
     Inl (TypeError (ascii ''list indices must be integers or slices, not str''))"
| "subscript (JStr s) key =
     Inl (TypeError (ascii ''string indices must be integers, not '' @ quoted (ascii ''str'')))"
| "subscript v key =
     Inl (TypeError (quoted (type_name v) @ ascii '' object is not subscriptable''))"

text \<open>\<open>v.get(key, '')\<close>: only a dict has \<open>get\<close>.\<close>

fun dict_get :: "json \<Rightarrow> ustr \<Rightarrow> exn + json" where
  "dict_get (JDict kvs) key =
     (case map_of kvs key of None \<Rightarrow> Inr (JStr []) | Some v \<Rightarrow> Inr v)"
| "dict_get v key =
     Inl (AttributeError (quoted (type_name v) @ ascii '' object has no attribute '' @
       quoted (ascii ''get'')))"

text \<open>
  The configuration that \<open>load_config\<close> returns, with the four settings the program reads.
\<close>

record config =
  word_paths :: "ustr list"
  excel_path :: ustr
  api_url :: ustr
  auth_token :: ustr

text \<open>What \<open>requests.post\<close> is called with, and the response it returns.\<close>

record request =
  req_url :: ustr
  req_authorization :: ustr
  req_json :: json
  req_timeout :: nat

record response =
  status_code :: nat
  reason :: ustr
  resp_url :: ustr
  resp_text :: ustr

text \<open>
  \<open>Response.raise_for_status\<close> of the \<open>requests\<close> library raises \<open>HTTPError\<close> for the
  status codes 400 to 599 and for no other.
\<close>

definition raise_for_status :: "response \<Rightarrow> exn + unit" where
  "raise_for_status r =
     (if 400 \<le> status_code r \<and> status_code r < 500
      then Inl (HTTPError (digits (status_code r) @ ascii '' Client Error: '' @ reason r @
                           ascii '' for url: '' @ resp_url r))
      else if 500 \<le> status_code r \<and> status_code r < 600
      then Inl (HTTPError (digits (status_code r) @ ascii '' Server Error: '' @ reason r @
                           ascii '' for url: '' @ resp_url r))
      else Inr ())"

text \<open>
  The collaborators outside the program, as parameters: the remote service (the outcome
  of the \<open>n\<close>-th call of \<open>requests.post\<close>, counted from 0), \<open>json.loads\<close>, the \<open>repr\<close> of
  containers, the YAML configuration file, the checklist workbook (the rows of its active
  sheet), the paragraphs of a Word document, the path of the result file beside a
  document, and saving a workbook.
\<close>

record env =
  http_post :: "nat \<Rightarrow> request \<Rightarrow> exn + response"
  json_loads :: "ustr \<Rightarrow> exn + json"
  py_repr :: "json \<Rightarrow> ustr"
  yaml_config :: "exn + config"
  load_rows :: "ustr \<Rightarrow> exn + cell list list"
  read_paragraphs :: "ustr \<Rightarrow> exn + ustr list"
  result_path :: "ustr \<Rightarrow> ustr"
  save_workbook :: "ustr \<Rightarrow> cell list list \<Rightarrow> exn option"

text \<open>
  What the program changes: the requests sent so far, the log records written so far, and
  the workbooks saved so far.
\<close>

datatype level = INFO | ERROR

record world =
  sent :: "request list"
  logged :: "(level \<times> ustr) list"
  files :: "(ustr \<times> cell list list) list"


definition log_error :: "ustr \<Rightarrow> world \<Rightarrow> world" where
  "log_error m w = w\<lparr>logged := logged w @ [(ERROR, m)]\<rparr>"

section \<open>TextNormalizer with its file access\<close>




section \<open>RowRequestBuilder: the first part of \<open>process_excel_row\<close>\<close>

text \<open>The keys \<open>'\u6761\u6b3e'\<close> and
  \<open>'\u5185\u5bb9\u6982\u8981\u586b\u5199\u8bf4\u660e\u548c\u63d0\u793a'\<close> of the query.\<close>

definition key_clause :: ustr where
  "key_clause = [26465, 27454]"

definition key_guidance :: ustr where
  "key_guidance = [20869, 23481, 27010, 35201, 22635, 20889, 35828, 26126, 21644, 25552, 31034]"

text \<open>\<open>row[i]\<close> on the tuple of a row.\<close>

definition tuple_item :: "cell list \<Rightarrow> nat \<Rightarrow> exn + cell" where
  "tuple_item row i =
     (if i < length row then Inr (row ! i)
      else Inl (IndexError (ascii ''tuple index out of range'')))"

definition query_data :: "cell list \<Rightarrow> exn + (ustr \<times> cell) list" where
  "query_data row =
     and_then (tuple_item row 0) (\<lambda>c0.
     and_then (tuple_item row 1) (\<lambda>c1.
     Inr [(key_clause, c0), (key_guidance, c1)]))"

text \<open>
  \<open>json.dumps(d, ensure_ascii=False, indent=4)\<close> for a dict of cell values.  A string is
  written between double quotes; the quote, the backslash and the control characters
  below U+0020 are escaped and every other character is written as it is.
\<close>

definition hex_digit :: "nat \<Rightarrow> nat" where
  "hex_digit d = (if d < 10 then 48 + d else 87 + d)"

definition escape_char :: "nat \<Rightarrow> ustr" where
  "escape_char c =
     (if c = 34 then [92, 34]
      else if c = 92 then [92, 92]
      else if c = 10 then [92, 110]
      else if c = 13 then [92, 114]
      else if c = 9 then [92, 116]
      else if c = 8 then [92, 98]
      else if c = 12 then [92, 102]
      else if c < 32 then [92, 117, 48, 48, hex_digit (c div 16), hex_digit (c mod 16)]
      else [c])"

definition json_string :: "ustr \<Rightarrow> ustr" where
  "json_string s = [34] @ concat (map escape_char s) @ [34]"

fun encode_cell :: "cell \<Rightarrow> exn + ustr" where
  "encode_cell CNone = Inr (ascii ''null'')"
| "encode_cell (CBool b) = Inr (if b then ascii ''true'' else ascii ''false'')"
| "encode_cell (CInt i) = Inr (str_int i)"
| "encode_cell (CFloat r) =
     Inr (if r = ascii ''nan'' then ascii ''NaN''
          else if r = ascii ''inf'' then ascii ''Infinity''
          else if r = ascii ''-inf'' then ascii ''-Infinity''
          else r)"
| "encode_cell (CStr s) = Inr (json_string s)"
| "encode_cell (CObj cls s) =
     Inl (TypeError (ascii ''Object of type '' @ cls @ ascii '' is not JSON serializable''))"

fun encode_members :: "(ustr \<times> cell) list \<Rightarrow> exn + ustr list" where
  "encode_members [] = Inr []"
| "encode_members ((k, v) # kvs) =
     and_then (encode_cell v) (\<lambda>t.
     and_then (encode_members kvs) (\<lambda>ts.
     Inr ((json_string k @ ascii '': '' @ t) # ts)))"

definition json_dumps_indent4 :: "(ustr \<times> cell) list \<Rightarrow> exn + ustr" where
  "json_dumps_indent4 d =
     (if d = [] then Inr (ascii ''{}'')
      else and_then (encode_members d) (\<lambda>ms.
           Inr (ascii ''{'' @ [10] @ ascii ''    '' @
                join (ascii '','' @ [10] @ ascii ''    '') ms @ [10] @ ascii ''}'')))"

text \<open>The request body \<open>payload\<close>.\<close>

definition build_payload :: "cell list \<Rightarrow> ustr \<Rightarrow> exn + json" where
  "build_payload row file_text =
     and_then (query_data row) (\<lambda>qd.
     and_then (json_dumps_indent4 qd) (\<lambda>query_json.
     Inr (JDict
       [(ascii ''response_mode'', JStr (ascii ''blocking'')),
        (ascii ''user'', JStr (ascii ''haha-partner'')),
        (ascii ''inputs'', JDict
           [(ascii ''Query'', JStr query_json),
            (ascii ''File'', JStr file_text)])])))"

section \<open>ResponseExtractor: the second part of \<open>process_excel_row\<close>\<close>

text \<open>The result of one row: the dict with the keys \<open>'\u5185\u5bb9\u6982\u8981'\<close>,
  \<open>'\u6761\u6b3e\u5e8f\u53f7'\<close>, \<open>'\u6761\u6b3e\u539f\u6587'\<close> and \<open>'error'\<close>.\<close>

record row_result =
  summary :: ustr
  clause_numbers :: ustr
  clause_text :: ustr
  error :: ustr

text \<open>The literals \<open>'\u5904\u7406\u5931\u8d25'\<close> (the failure sentinel),
  \<open>'\u672a\u63d0\u53d6'\<close> (not extracted), the three keys of the structured payload, and
  \<open>'\u672a\u627e\u5230\u6709\u6548JSON\u6570\u636e'\<close>.\<close>

definition failure_sentinel :: ustr where
  "failure_sentinel = [22788, 29702, 22833, 36133]"

definition not_extracted :: ustr where
  "not_extracted = [26410, 25552, 21462]"

definition key_summary :: ustr where
  "key_summary = [20869, 23481, 27010, 35201]"

definition key_clause_numbers :: ustr where
  "key_clause_numbers = [26465, 27454, 24207, 21495]"

definition key_clause_text :: ustr where
  "key_clause_text = [26465, 27454, 21407, 25991]"

definition msg_no_json :: ustr where
  "msg_no_json = [26410, 25214, 21040, 26377, 25928, 74, 83, 79, 78, 25968, 25454]"

text \<open>\<open>response_data['data']['outputs']['Answer']\<close>\<close>

definition answer_of :: "json \<Rightarrow> exn + json" where
  "answer_of response_data =
     and_then (subscript response_data (ascii ''data'')) (\<lambda>d.
     and_then (subscript d (ascii ''outputs'')) (\<lambda>outputs.
     subscript outputs (ascii ''Answer'')))"

text \<open>
  The first occurrence of a pattern in a text: the text before it and the text after it.
\<close>

fun find_sub :: "ustr \<Rightarrow> ustr \<Rightarrow> (ustr \<times> ustr) option" where
  "find_sub pat [] = (if pat = [] then Some ([], []) else None)"
| "find_sub pat (c # cs) =
     (if prefix pat (c # cs) then Some ([], drop (length pat) (c # cs))
      else map_option (\<lambda>(before, after). (c # before, after)) (find_sub pat cs))"

text \<open>
  Group 1 of \<open>re.search(r'```json(.*?)```', answer, re.DOTALL)\<close>: the match starts at
  the first opening fence that has a closing fence after it, which is the first opening
  fence of the text, and the lazy group with \<open>DOTALL\<close> ends at the first closing fence
  after it.
\<close>

definition fence_open :: ustr where
  "fence_open = ascii ''```json''"

definition fence_close :: ustr where
  "fence_close = ascii ''```''"

definition search_fenced :: "ustr \<Rightarrow> ustr option" where
  "search_fenced answer =
     (case find_sub fence_open answer of
        None \<Rightarrow> None
      | Some (before, rest) \<Rightarrow>
          (case find_sub fence_close rest of
             None \<Rightarrow> None
           | Some (body, after) \<Rightarrow> Some body))"

definition convert_list_to_str :: "env \<Rightarrow> json \<Rightarrow> ustr" where
  "convert_list_to_str ev data =
     (case data of
        JList items \<Rightarrow> join [10] (map (py_str (py_repr ev)) items)
      | JNull \<Rightarrow> not_extracted
      | _ \<Rightarrow> py_str (py_repr ev) data)"

text \<open>\<open>convert_list_to_str(result.get(key, ''))\<close>, the expression of each of the three fields.\<close>

definition field_text :: "env \<Rightarrow> json \<Rightarrow> ustr \<Rightarrow> exn + ustr" where
  "field_text ev result key =
     and_then (dict_get result key) (\<lambda>v. Inr (convert_list_to_str ev v))"

text \<open>
  From \<open>answer\<close> to the result of a successful row: the fenced block, \<open>json.loads\<close> of
  its stripped text, and the three fields.  \<open>re.search\<close> raises \<open>TypeError\<close> on an
  answer that is not a string.
\<close>

definition extract_answer :: "env \<Rightarrow> json \<Rightarrow> exn + row_result" where
  "extract_answer ev answer =
     (case answer of
        JStr a \<Rightarrow>
          (case search_fenced a of
             None \<Rightarrow> Inl (ValueError msg_no_json)
           | Some group1 \<Rightarrow>
               and_then (json_loads ev (strip group1)) (\<lambda>result.
               and_then (field_text ev result key_summary) (\<lambda>s.
               and_then (field_text ev result key_clause_numbers) (\<lambda>n.
               and_then (field_text ev result key_clause_text) (\<lambda>t.
               Inr \<lparr>summary = s, clause_numbers = n, clause_text = t, error = []\<rparr>)))))
      | _ \<Rightarrow>
          Inl (TypeError (ascii ''expected string or bytes-like object, got '' @
                          quoted (type_name answer))))"

section \<open>RowProcessor: \<open>process_excel_row\<close>\<close>

text \<open>
  \<open>requests.post(api_url, json=payload, headers={'Authorization': auth_token},
  timeout=600)\<close>: the request that is sent.
\<close>

definition post_request :: "ustr \<Rightarrow> ustr \<Rightarrow> json \<Rightarrow> request" where
  "post_request url token payload =
     \<lparr>req_url = url, req_authorization = token, req_json = payload, req_timeout = 600\<rparr>"

text \<open>
  From a response whose status has been checked to the result: \<open>response.json()\<close>
  decodes the body with \<open>json.loads\<close>, then the answer is taken and extracted.
\<close>

definition decode_response :: "env \<Rightarrow> response \<Rightarrow> exn + row_result" where
  "decode_response ev response =
     and_then (json_loads ev (resp_text response)) (\<lambda>response_data.
     and_then (answer_of response_data) (extract_answer ev))"

text \<open>
  The body of the \<open>try\<close>: build the payload, post it (the one place where a request is
  sent), check the status, decode the body, extract the result.
\<close>

definition try_row ::
    "env \<Rightarrow> cell list \<Rightarrow> ustr \<Rightarrow> ustr \<Rightarrow> ustr \<Rightarrow> world \<Rightarrow> (exn + row_result) \<times> world" where
  "try_row ev row file_text url token w =
     (case build_payload row file_text of
        Inl e \<Rightarrow> (Inl e, w)
      | Inr payload \<Rightarrow>
          (and_then (http_post ev (length (sent w)) (post_request url token payload)) (\<lambda>response.
           and_then (raise_for_status response) (\<lambda>u.
           decode_response ev response)),
           w\<lparr>sent := sent w @ [post_request url token payload]\<rparr>))"

text \<open>The literal \<open>'\u5904\u7406\u884c\u5931\u8d25: '\<close>.\<close>

definition msg_row_failed :: ustr where
  "msg_row_failed = [22788, 29702, 34892, 22833, 36133, 58, 32]"

text \<open>
  \<open>process_excel_row\<close>.  The handler formats \<open>row[0]\<close> into its log message before it
  returns, so on an empty row the handler itself raises \<open>IndexError\<close>, which leaves the
  function.
\<close>

definition failed_result :: "exn \<Rightarrow> row_result" where
  "failed_result e =
     \<lparr>summary = failure_sentinel, clause_numbers = failure_sentinel,
      clause_text = failure_sentinel, error = exn_str e\<rparr>"

definition process_excel_row ::
    "env \<Rightarrow> cell list \<Rightarrow> ustr \<Rightarrow> ustr \<Rightarrow> ustr \<Rightarrow> world \<Rightarrow> (exn + row_result) \<times> world" where
  "process_excel_row ev row file_text url token w =
     (case try_row ev row file_text url token w of
        (Inr result, w1) \<Rightarrow> (Inr result, w1)
      | (Inl e, w1) \<Rightarrow>
          (case tuple_item row 0 of
             Inl e0 \<Rightarrow> (Inl e0, w1)
           | Inr c0 \<Rightarrow>
               (Inr (failed_result e),
                log_error (msg_row_failed @ str_cell c0 @ ascii '' - '' @ exn_str e) w1)))"

section \<open>DocumentRunner and Pipeline: \<open>process_documents\<close>\<close>













section \<open>The entry point\<close>






section \<open>Notions of the specification\<close>

text \<open>
  The specification calls the serialized query a compact string form.  Whatever the
  separators, a compact serialization is written on one line: it has no line break.
\<close>

definition spec_compact_form :: "ustr \<Rightarrow> bool" where
  "spec_compact_form s \<longleftrightarrow> 10 \<notin> set s"


section \<open>A concrete world for evaluating the program\<close>

text \<open>
  The fenced block \<open>{"\u5185\u5bb9\u6982\u8981": ["a","b"], "\u6761\u6b3e\u5e8f\u53f7": "1.1", "\u6761\u6b3e\u539f\u6587": null}\<close>, the
  value that \<open>json.loads\<close> decodes it to, an answer that contains the block between
  fences, and the body of a reply of the service that carries this answer.
\<close>

definition example_block :: ustr where
  "example_block =
    [123, 34, 20869, 23481, 27010, 35201, 34, 58, 32, 91, 34, 97, 34, 44, 34, 98, 34, 93,
     44, 32, 34, 26465, 27454, 24207, 21495, 34, 58, 32, 34, 49, 46, 49, 34, 44, 32, 34,
     26465, 27454, 21407, 25991, 34, 58, 32, 110, 117, 108, 108, 125]"

definition example_payload :: json where
  "example_payload =
     JDict [(key_summary, JList [JStr (ascii ''a''), JStr (ascii ''b'')]),
            (key_clause_numbers, JStr (ascii ''1.1'')),
            (key_clause_text, JNull)]"

definition example_answer :: ustr where
  "example_answer = ascii ''Result: '' @ fence_open @ [10] @ example_block @ [10] @ fence_close"

definition example_body :: ustr where
  "example_body =
    [123, 34, 100, 97, 116, 97, 34, 58, 32, 123, 34, 111, 117, 116, 112, 117, 116, 115, 34,
     58, 32, 123, 34, 65, 110, 115, 119, 101, 114, 34, 58, 32, 34, 82, 101, 115, 117, 108,
     116, 58, 32, 96, 96, 96, 106, 115, 111, 110, 92, 110, 123, 92, 34, 20869, 23481,
     27010, 35201, 92, 34, 58, 32, 91, 92, 34, 97, 92, 34, 44, 92, 34, 98, 92, 34, 93, 44,
     32, 92, 34, 26465, 27454, 24207, 21495, 92, 34, 58, 32, 92, 34, 49, 46, 49, 92, 34,
     44, 32, 92, 34, 26465, 27454, 21407, 25991, 92, 34, 58, 32, 110, 117, 108, 108, 125,
     92, 110, 96, 96, 96, 34, 125, 125, 125]"

text \<open>
  \<open>json.loads\<close> on the two texts above; every other text of this world is not JSON.
\<close>

definition example_loads :: "ustr \<Rightarrow> exn + json" where
  "example_loads s =
     (if s = example_body
      then Inr (JDict [(ascii ''data'', JDict [(ascii ''outputs'',
                  JDict [(ascii ''Answer'', JStr example_answer)])])])
      else if s = example_block then Inr example_payload
      else Inl (JSONDecodeError (ascii ''Expecting value: line 1 column 1 (char 0)'')))"

text \<open>
  A service that answers every call with the reply above under a given status code, and a
  service whose every call times out.
\<close>

definition service_status :: "nat \<Rightarrow> nat \<Rightarrow> request \<Rightarrow> exn + response" where
  "service_status code n req =
     Inr \<lparr>status_code = code, reason = ascii ''-'', resp_url = req_url req,
          resp_text = example_body\<rparr>"

definition service_timeout :: "nat \<Rightarrow> request \<Rightarrow> exn + response" where
  "service_timeout n req = Inl (RequestException (ascii ''Read timed out. (read timeout=600)''))"

text \<open>
  A configuration with two documents, of which the first cannot be opened, and a checklist
  with a header row and one data row of a given width.
\<close>

definition example_config :: config where
  "example_config =
     \<lparr>word_paths = [ascii ''missing.docx'', ascii ''b.docx''],
      excel_path = ascii ''checklist.xlsx'',
      api_url = ascii ''http://service/run'',
      auth_token = ascii ''Bearer k''\<rparr>"

definition example_env :: "(nat \<Rightarrow> request \<Rightarrow> exn + response) \<Rightarrow> cell list list \<Rightarrow> env" where
  "example_env service rows =
     \<lparr>http_post = service,
      json_loads = example_loads,
      py_repr = (\<lambda>v. ascii ''[...]''),
      yaml_config = Inr example_config,
      load_rows = (\<lambda>path. Inr rows),
      read_paragraphs = (\<lambda>path.
        if path = ascii ''missing.docx''
        then Inl (OSError (ascii ''Package not found''))
        else Inr [ascii ''Clause 1.1  applies.'']),
      result_path = (\<lambda>path. take (length path - 5) path @ ascii ''_result.xlsx''),
      save_workbook = (\<lambda>path sheet. None)\<rparr>"

definition world0 :: world where
  "world0 = \<lparr>sent = [], logged = [], files = []\<rparr>"

section \<open>Properties of the text normalizer\<close>








































section \<open>Properties of the row pipeline\<close>

lemma and_then_Inr [simp]: "and_then (Inr x) f = f x"
  by (simp add: and_then_def)

lemma and_then_Inl [simp]: "and_then (Inl e) f = Inl e"
  by (simp add: and_then_def)

lemma and_then_eq_Inr: "and_then m f = Inr y \<longleftrightarrow> (\<exists>x. m = Inr x \<and> f x = Inr y)"
  by (cases m) auto

lemma and_then_eq_Inl: "and_then m f = Inl e \<longleftrightarrow> m = Inl e \<or> (\<exists>x. m = Inr x \<and> f x = Inl e)"
  by (cases m) auto




text \<open>
  Claim C2, as amended.  For a field of the decoded payload: a list is joined with newlines,
  in order, each element stringified; a string is taken as it is and any other scalar that
  is not null is stringified; a null field gives the marker \<open>'\u672a\u63d0\u53d6'\<close>, which is
  not empty; an absent field gives the empty string, the default of \<open>result.get\<close>.
\<close>

theorem field_text_cases:
  "(map_of kvs key = Some (JList items) \<longrightarrow>
      field_text ev (JDict kvs) key = Inr (join [10] (map (py_str (py_repr ev)) items))) \<and>
   (map_of kvs key = Some (JStr s) \<longrightarrow> field_text ev (JDict kvs) key = Inr s) \<and>
   (map_of kvs key = Some v \<and> v \<noteq> JNull \<and> (\<forall>xs. v \<noteq> JList xs) \<longrightarrow>
      field_text ev (JDict kvs) key = Inr (py_str (py_repr ev) v)) \<and>
   (map_of kvs key = Some JNull \<longrightarrow> field_text ev (JDict kvs) key = Inr not_extracted) \<and>
   (map_of kvs key = None \<longrightarrow> field_text ev (JDict kvs) key = Inr []) \<and>
   not_extracted \<noteq> []"
proof -
  have scalar: "map_of kvs key = Some v \<and> v \<noteq> JNull \<and> (\<forall>xs. v \<noteq> JList xs) \<longrightarrow>
      field_text ev (JDict kvs) key = Inr (py_str (py_repr ev) v)"
    by (cases v) (simp_all add: field_text_def convert_list_to_str_def)
  show ?thesis
    using scalar by (simp add: field_text_def convert_list_to_str_def not_extracted_def)
qed

theorem field_text_cases_witness:
  "field_text (example_env service_timeout []) example_payload key_summary = Inr [97, 10, 98] \<and>
   field_text (example_env service_timeout []) example_payload key_clause_numbers = Inr (ascii ''1.1'') \<and>
   field_text (example_env service_timeout []) example_payload key_clause_text = Inr not_extracted \<and>
   field_text (example_env service_timeout []) (JDict [(key_summary, JInt 7)]) key_summary = Inr [55] \<and>
   field_text (example_env service_timeout []) (JDict [(key_summary, JInt 7)]) key_clause_text = Inr []"
proof -
  let ?E = "example_env service_timeout []"
  let ?kvs = "[(key_summary, JList [JStr (ascii ''a''), JStr (ascii ''b'')]),
               (key_clause_numbers, JStr (ascii ''1.1'')), (key_clause_text, JNull)]"
  have keys: "key_summary \<noteq> key_clause_numbers" "key_summary \<noteq> key_clause_text"
    "key_clause_numbers \<noteq> key_clause_text"
    by (simp_all add: key_summary_def key_clause_numbers_def key_clause_text_def)
  have 1: "map_of ?kvs key_summary = Some (JList [JStr (ascii ''a''), JStr (ascii ''b'')])"
    by simp
  have 2: "map_of ?kvs key_clause_numbers = Some (JStr (ascii ''1.1''))"
    using keys by simp
  have 3: "map_of ?kvs key_clause_text = Some JNull"
    using keys by simp
  have 4: "map_of [(key_summary, JInt 7)] key_summary = Some (JInt 7) \<and> JInt 7 \<noteq> JNull \<and>
           (\<forall>xs. JInt 7 \<noteq> JList xs)"
    by simp
  have 5: "map_of [(key_summary, JInt 7)] key_clause_text = None"
    using keys by simp
  note t = field_text_cases[where ev = ?E]
  have "field_text ?E (JDict ?kvs) key_summary
          = Inr (join [10] (map (py_str (py_repr ?E)) [JStr (ascii ''a''), JStr (ascii ''b'')]))"
    using t[of ?kvs key_summary] 1 by blast
  moreover have "field_text ?E (JDict ?kvs) key_clause_numbers = Inr (ascii ''1.1'')"
    using t[of ?kvs key_clause_numbers] 2 by blast
  moreover have "field_text ?E (JDict ?kvs) key_clause_text = Inr not_extracted"
    using t[of ?kvs key_clause_text] 3 by blast
  moreover have "field_text ?E (JDict [(key_summary, JInt 7)]) key_summary
          = Inr (py_str (py_repr ?E) (JInt 7))"
    using t[of "[(key_summary, JInt 7)]" key_summary _ _ "JInt 7"] 4 by blast
  moreover have "field_text ?E (JDict [(key_summary, JInt 7)]) key_clause_text = Inr []"
    using t[of "[(key_summary, JInt 7)]" key_clause_text] 5 by blast
  ultimately show ?thesis
    by (simp add: example_payload_def ascii_def str_int_def digits.simps)
qed

text \<open>
  Claim C2 as stated fails: a payload without the summary key gives the empty string for
  the summary, not the marker.
\<close>

theorem absent_field_counterexample:
  "field_text (example_env service_timeout []) (JDict [(key_clause_numbers, JStr (ascii ''1.1''))])
     key_summary = Inr [] \<and> not_extracted \<noteq> []"
  by (simp add: field_text_def convert_list_to_str_def not_extracted_def
      key_summary_def key_clause_numbers_def)

lemma find_sub_unfold:
  "xs \<noteq> [] \<Longrightarrow> find_sub pat xs =
     (if prefix pat xs then Some ([], drop (length pat) xs)
      else map_option (\<lambda>(before, after). (hd xs # before, after)) (find_sub pat (tl xs)))"
  by (cases xs) simp_all

lemma prefix_append_short:
  "prefix xs (ys @ zs) \<Longrightarrow> length xs \<le> length ys \<Longrightarrow> prefix xs ys"
  by (auto simp: prefix_append)

lemma find_sub_first:
  "pat \<noteq> [] \<Longrightarrow> \<not> sublist pat (pre @ butlast pat) \<Longrightarrow>
   find_sub pat (pre @ pat @ rest) = Some (pre, rest)"
proof (induction pre)
  case Nil
  then have "pat @ rest \<noteq> []" by simp
  then show ?case by (simp add: find_sub_unfold)
next
  case (Cons a pre)
  have "\<not> prefix pat (a # pre @ pat @ rest)"
  proof
    assume "prefix pat (a # pre @ pat @ rest)"
    moreover have "a # pre @ pat @ rest = (a # pre @ butlast pat) @ ([last pat] @ rest)"
      using append_butlast_last_id[OF Cons.prems(1)] by (metis append.assoc append_Cons)
    ultimately have "prefix pat ((a # pre @ butlast pat) @ ([last pat] @ rest))"
      by simp
    moreover have "length pat \<le> length (a # pre @ butlast pat)" by simp
    ultimately have "prefix pat (a # pre @ butlast pat)"
      by (rule prefix_append_short)
    then have "sublist pat (a # pre @ butlast pat)" by (rule prefix_imp_sublist)
    with Cons.prems(2) show False by simp
  qed
  moreover have "\<not> sublist pat (pre @ butlast pat)"
    using Cons.prems(2) by (simp add: sublist_Cons_right)
  ultimately show ?case using Cons.IH Cons.prems(1) by simp
qed

lemma find_sub_no_head:
  "pat \<noteq> [] \<Longrightarrow> hd pat \<notin> set pre \<Longrightarrow> find_sub pat (pre @ pat @ rest) = Some (pre, rest)"
proof (induction pre)
  case Nil
  then have "pat @ rest \<noteq> []" by simp
  then show ?case by (simp add: find_sub_unfold)
next
  case (Cons a pre)
  then have "\<not> prefix pat (a # pre @ pat @ rest)"
    by (cases pat) auto
  with Cons show ?case by simp
qed

lemma dropWhile_padded:
  assumes "\<forall>c \<in> set ws. P c" and "b \<noteq> []" and "\<not> P (hd b)"
  shows "dropWhile P (ws @ b @ t) = b @ t"
proof -
  have "dropWhile P (ws @ b @ t) = dropWhile P (b @ t)"
    using assms(1) by (intro dropWhile_append2) simp
  also have "\<dots> = b @ t"
    using assms(2,3) by (simp add: dropWhile_eq_self_iff)
  finally show ?thesis .
qed

lemma strip_padded:
  assumes "\<forall>c \<in> set ws1. is_space c" and "\<forall>c \<in> set ws2. is_space c"
    and "b \<noteq> []" and "\<not> is_space (hd b)" and "\<not> is_space (last b)"
  shows "strip (ws1 @ b @ ws2) = b"
proof -
  have 1: "dropWhile is_space (ws1 @ b @ ws2) = b @ ws2"
    using assms(1,3,4) by (rule dropWhile_padded)
  have "dropWhile is_space (rev ws2 @ rev b @ []) = rev b @ []"
    using assms(2,3,5) by (intro dropWhile_padded) (simp_all add: hd_rev)
  then show ?thesis by (simp add: strip_def 1)
qed

lemma not_space_backtick: "\<not> is_space 96"
  by (simp add: is_space_def)

lemma spaces_no_backtick: "\<forall>c \<in> set ws. is_space c \<Longrightarrow> 96 \<notin> set ws"
  using not_space_backtick by blast

lemma example_block_facts:
  "96 \<notin> set example_block" "example_block \<noteq> []"
  "\<not> is_space (hd example_block)" "\<not> is_space (last example_block)"
  by (simp_all add: example_block_def is_space_def)

lemma search_fenced_first:
  assumes "\<not> sublist fence_open (pre @ butlast fence_open)" and "96 \<notin> set body"
  shows "search_fenced (pre @ fence_open @ body @ fence_close @ post) = Some body"
proof -
  have o: "fence_open \<noteq> []" and c: "fence_close \<noteq> []" "hd fence_close = 96"
    by (simp_all add: fence_open_def fence_close_def ascii_def)
  have "find_sub fence_open (pre @ fence_open @ body @ fence_close @ post)
          = Some (pre, body @ fence_close @ post)"
    using o assms(1) by (rule find_sub_first)
  moreover have "find_sub fence_close (body @ fence_close @ post) = Some (body, post)"
    using c assms(2) by (intro find_sub_no_head) simp_all
  ultimately show ?thesis by (simp add: search_fenced_def)
qed

lemma example_payload_fields:
  "field_text ev example_payload key_summary = Inr (ascii ''a'' @ [10] @ ascii ''b'')"
  "field_text ev example_payload key_clause_numbers = Inr (ascii ''1.1'')"
  "field_text ev example_payload key_clause_text = Inr not_extracted"
  by (simp_all add: field_text_def convert_list_to_str_def example_payload_def
      key_summary_def key_clause_numbers_def key_clause_text_def)

text \<open>
  Claim C5.  When the first fenced block of the answer is the block
  \<open>{"\u5185\u5bb9\u6982\u8981": ["a","b"], "\u6761\u6b3e\u5e8f\u53f7": "1.1", "\u6761\u6b3e\u539f\u6587": null}\<close>
  (its opening fence is the first opening fence of the answer; any whitespace around the
  block inside the fences; any text after the closing fence), and \<open>json.loads\<close> decodes the block to the
  object it denotes, extraction gives the summary \<open>a\nb\<close>, the clause numbers \<open>1.1\<close>, the
  marker \<open>'\u672a\u63d0\u53d6'\<close> as clause text, and the empty error.
\<close>

theorem fenced_block_extraction:
  assumes "json_loads ev example_block = Inr example_payload"
    and "\<not> sublist fence_open (pre @ butlast fence_open)"
    and "\<forall>c \<in> set ws1. is_space c" and "\<forall>c \<in> set ws2. is_space c"
  shows "extract_answer ev
           (JStr (pre @ fence_open @ ws1 @ example_block @ ws2 @ fence_close @ post))
         = Inr \<lparr>summary = ascii ''a'' @ [10] @ ascii ''b'', clause_numbers = ascii ''1.1'',
                clause_text = not_extracted, error = []\<rparr>"
proof -
  have "96 \<notin> set (ws1 @ example_block @ ws2)"
    using assms(3,4) spaces_no_backtick example_block_facts(1) by simp
  then have "search_fenced (pre @ fence_open @ (ws1 @ example_block @ ws2) @ fence_close @ post)
               = Some (ws1 @ example_block @ ws2)"
    using assms(2) by (intro search_fenced_first)
  then have s: "search_fenced (pre @ fence_open @ ws1 @ example_block @ ws2 @ fence_close @ post)
               = Some (ws1 @ example_block @ ws2)"
    by simp
  have st: "strip (ws1 @ example_block @ ws2) = example_block"
    using assms(3,4) example_block_facts(2-4) by (rule strip_padded)
  show ?thesis
    by (simp add: extract_answer_def s st assms(1) example_payload_fields)
qed

theorem fenced_block_extraction_witness:
  "extract_answer (example_env service_timeout []) (JStr example_answer)
     = Inr \<lparr>summary = [97, 10, 98], clause_numbers = ascii ''1.1'',
            clause_text = not_extracted, error = []\<rparr>"
proof -
  let ?E = "example_env service_timeout []"
  have 1: "json_loads ?E example_block = Inr example_payload"
    by (simp add: example_env_def example_loads_def example_block_def example_body_def)
  have 2: "\<not> sublist fence_open (ascii ''Result: '' @ butlast fence_open)"
    by (simp add: fence_open_def ascii_def sublist_Cons_right prefix_Cons)
  have 3: "\<forall>c \<in> set [10]. is_space c" by (simp add: is_space_def)
  from fenced_block_extraction[OF 1 2 3 3, of "[]"]
  show ?thesis by (simp add: example_answer_def ascii_def)
qed

lemma join_two: "join sep [x, y] = x @ sep @ y"
  by simp

text \<open>
  Claim C7, as amended.  For a row with at least two cells that \<open>json.dumps\<close> can
  encode, the query has exactly the two fields of the clause label (cell 0) and the clause
  guidance (cell 1); it is serialized with an indent of four spaces, one member per line
  (not in a compact form); the payload has exactly the fields \<open>response_mode\<close>
  (\<open>blocking\<close>), \<open>user\<close> (\<open>haha-partner\<close>) and \<open>inputs\<close>, and \<open>inputs\<close> has the
  serialized query under \<open>Query\<close> and the unmodified document text under \<open>File\<close>.  The
  payload is a function of the row and the text alone.  A row with fewer than two cells
  gives no payload.
\<close>

theorem build_payload_envelope:
  "(encode_cell c0 = Inr t0 \<and> encode_cell c1 = Inr t1 \<longrightarrow>
      query_data (c0 # c1 # rest) = Inr [(key_clause, c0), (key_guidance, c1)] \<and>
      build_payload (c0 # c1 # rest) file_text =
        Inr (JDict
          [(ascii ''response_mode'', JStr (ascii ''blocking'')),
           (ascii ''user'', JStr (ascii ''haha-partner'')),
           (ascii ''inputs'', JDict
              [(ascii ''Query'', JStr
                 (ascii ''{'' @ [10] @ ascii ''    '' @ json_string key_clause @ ascii '': '' @ t0 @
                  ascii '','' @ [10] @ ascii ''    '' @ json_string key_guidance @ ascii '': '' @ t1 @
                  [10] @ ascii ''}'')),
               (ascii ''File'', JStr file_text)])]) \<and>
      \<not> spec_compact_form
         (ascii ''{'' @ [10] @ ascii ''    '' @ json_string key_clause @ ascii '': '' @ t0 @
          ascii '','' @ [10] @ ascii ''    '' @ json_string key_guidance @ ascii '': '' @ t1 @
          [10] @ ascii ''}'')) \<and>
   (length row < 2 \<longrightarrow>
      build_payload row file_text = Inl (IndexError (ascii ''tuple index out of range'')))"
proof -
  have short: "length row < 2 \<longrightarrow>
      build_payload row file_text = Inl (IndexError (ascii ''tuple index out of range''))"
    by (cases row) (auto simp: build_payload_def query_data_def tuple_item_def)
  have q: "query_data (c0 # c1 # rest) = Inr [(key_clause, c0), (key_guidance, c1)]"
    by (simp add: query_data_def tuple_item_def)
  have d: "json_dumps_indent4 [(key_clause, c0), (key_guidance, c1)] =
        Inr (ascii ''{'' @ [10] @ ascii ''    '' @ json_string key_clause @ ascii '': '' @ t0 @
             ascii '','' @ [10] @ ascii ''    '' @ json_string key_guidance @ ascii '': '' @ t1 @
             [10] @ ascii ''}'')"
    if "encode_cell c0 = Inr t0" "encode_cell c1 = Inr t1"
    using that by (simp add: json_dumps_indent4_def del: join.simps add: join_two)
  have nc: "\<not> spec_compact_form
         (ascii ''{'' @ [10] @ ascii ''    '' @ json_string key_clause @ ascii '': '' @ t0 @
          ascii '','' @ [10] @ ascii ''    '' @ json_string key_guidance @ ascii '': '' @ t1 @
          [10] @ ascii ''}'')"
    by (simp add: spec_compact_form_def)
  show ?thesis
    using short q d nc by (simp add: build_payload_def)
qed

theorem build_payload_envelope_witness:
  "build_payload [CStr (ascii ''1.1''), CNone, CInt 3] (ascii ''doc'') =
     Inr (JDict
       [(ascii ''response_mode'', JStr (ascii ''blocking'')),
        (ascii ''user'', JStr (ascii ''haha-partner'')),
        (ascii ''inputs'', JDict
           [(ascii ''Query'', JStr
              (ascii ''{'' @ [10] @ ascii ''    '' @ [34, 26465, 27454, 34] @ ascii '': '' @ [34] @ ascii ''1.1'' @ [34] @ ascii '','' @ [10] @
               ascii ''    '' @ [34] @ key_guidance @ [34] @ ascii '': null'' @ [10] @ ascii ''}'')),
            (ascii ''File'', JStr (ascii ''doc''))])]) \<and>
   build_payload [CStr (ascii ''1.1'')] (ascii ''doc'') =
     Inl (IndexError (ascii ''tuple index out of range''))"
proof -
  have e: "encode_cell (CStr (ascii ''1.1'')) = Inr ([34] @ ascii ''1.1'' @ [34]) \<and>
           encode_cell CNone = Inr (ascii ''null'')"
    by (simp add: json_string_def escape_char_def ascii_def)
  have l: "length [CStr (ascii ''1.1'')] < 2" by simp
  have k: "json_string key_clause = [34, 26465, 27454, 34]"
          "json_string key_guidance = [34] @ key_guidance @ [34]"
    by (simp_all add: json_string_def escape_char_def key_clause_def key_guidance_def)
  from build_payload_envelope[of "CStr (ascii ''1.1'')" "[34] @ ascii ''1.1'' @ [34]" CNone "ascii ''null''"
      "[CInt 3]" "ascii ''doc''" "[CStr (ascii ''1.1'')]"] e l
  show ?thesis by (simp add: k ascii_def)
qed

text \<open>
  Claim C7 as stated fails: the query of a two-cell row is serialized over four lines.
\<close>

theorem compact_query_counterexample:
  "and_then (query_data [CStr (ascii ''a''), CStr (ascii ''b'')]) json_dumps_indent4 =
     Inr (ascii ''{'' @ [10] @ ascii ''    '' @ [34, 26465, 27454, 34] @ ascii '': '' @ [34, 97, 34] @ ascii '','' @ [10] @
          ascii ''    '' @ [34] @ key_guidance @ [34] @ ascii '': '' @ [34, 98, 34] @ [10] @ ascii ''}'') \<and>
   \<not> spec_compact_form
     (ascii ''{'' @ [10] @ ascii ''    '' @ [34, 26465, 27454, 34] @ ascii '': '' @ [34, 97, 34] @ ascii '','' @ [10] @
      ascii ''    '' @ [34] @ key_guidance @ [34] @ ascii '': '' @ [34, 98, 34] @ [10] @ ascii ''}'')"
  by (simp add: query_data_def tuple_item_def json_dumps_indent4_def json_string_def
      escape_char_def key_clause_def key_guidance_def spec_compact_form_def ascii_def)

lemma ascii_nonempty: "s \<noteq> [] \<Longrightarrow> ascii s \<noteq> []"
  by (simp add: ascii_def)

lemma quoted_nonempty: "quoted s \<noteq> []"
  by (simp add: quoted_def)

lemma tuple_item_msg: "tuple_item row i = Inl e \<Longrightarrow> exn_str e \<noteq> []"
  by (auto simp: tuple_item_def ascii_def split: if_splits)

lemma encode_cell_msg: "encode_cell c = Inl e \<Longrightarrow> exn_str e \<noteq> []"
  by (cases c) (auto simp: ascii_def)

lemma encode_members_msg: "encode_members kvs = Inl e \<Longrightarrow> exn_str e \<noteq> []"
proof (induction kvs)
  case Nil
  then show ?case by simp
next
  case (Cons kv kvs)
  obtain k v where kv: "kv = (k, v)" by (cases kv)
  from Cons.prems show ?case
    unfolding kv by (auto simp: and_then_eq_Inl dest: encode_cell_msg Cons.IH)
qed

lemma build_payload_msg: "build_payload row file_text = Inl e \<Longrightarrow> exn_str e \<noteq> []"
  by (auto simp: build_payload_def query_data_def json_dumps_indent4_def and_then_eq_Inl
      dest: tuple_item_msg encode_members_msg split: if_splits)

lemma raise_for_status_msg: "raise_for_status r = Inl e \<Longrightarrow> exn_str e \<noteq> []"
  by (auto simp: raise_for_status_def ascii_def split: if_splits)

lemma subscript_msg: "subscript v key = Inl e \<Longrightarrow> exn_str e \<noteq> []"
  by (cases v) (auto simp: quoted_def ascii_def split: option.splits)

lemma answer_of_msg: "answer_of rd = Inl e \<Longrightarrow> exn_str e \<noteq> []"
  by (auto simp: answer_of_def and_then_eq_Inl dest: subscript_msg)

lemma dict_get_msg: "dict_get v key = Inl e \<Longrightarrow> exn_str e \<noteq> []"
  by (cases v) (auto simp: quoted_def split: option.splits)

lemma field_text_msg: "field_text ev v key = Inl e \<Longrightarrow> exn_str e \<noteq> []"
  by (auto simp: field_text_def and_then_eq_Inl dest: dict_get_msg)

lemma extract_answer_msg:
  assumes "\<And>s e. json_loads ev s = Inl e \<Longrightarrow> exn_str e \<noteq> []"
    and "extract_answer ev answer = Inl e"
  shows "exn_str e \<noteq> []"
proof (cases answer)
  case (JStr a)
  show ?thesis
  proof (cases "search_fenced a")
    case None
    with JStr assms(2) show ?thesis by (auto simp: extract_answer_def msg_no_json_def)
  next
    case (Some g)
    with JStr assms(2) show ?thesis
      by (auto simp: extract_answer_def and_then_eq_Inl dest: assms(1) field_text_msg)
  qed
qed (use assms(2) in \<open>auto simp: extract_answer_def ascii_def\<close>)

lemma decode_response_msg:
  assumes "\<And>s e. json_loads ev s = Inl e \<Longrightarrow> exn_str e \<noteq> []"
    and "decode_response ev resp = Inl e"
  shows "exn_str e \<noteq> []"
proof -
  from assms(2) consider "json_loads ev (resp_text resp) = Inl e"
    | rd where "answer_of rd = Inl e"
    | answer where "extract_answer ev answer = Inl e"
    by (auto simp: decode_response_def and_then_eq_Inl)
  then show ?thesis
  proof cases
    case 1 then show ?thesis by (rule assms(1))
  next
    case 2 then show ?thesis by (rule answer_of_msg)
  next
    case 3 with assms(1) show ?thesis by (rule extract_answer_msg)
  qed
qed

lemma try_row_msg:
  assumes "\<And>n r e. http_post ev n r = Inl e \<Longrightarrow> exn_str e \<noteq> []"
    and "\<And>s e. json_loads ev s = Inl e \<Longrightarrow> exn_str e \<noteq> []"
    and "fst (try_row ev row file_text url token w) = Inl e"
  shows "exn_str e \<noteq> []"
proof (cases "build_payload row file_text")
  case (Inl e')
  with assms(3) show ?thesis by (auto simp: try_row_def dest: build_payload_msg)
next
  case (Inr p)
  with assms(3) consider "http_post ev (length (sent w)) (post_request url token p) = Inl e"
    | resp where "raise_for_status resp = Inl e"
    | resp where "decode_response ev resp = Inl e"
    by (auto simp: try_row_def and_then_eq_Inl)
  then show ?thesis
  proof cases
    case 1 then show ?thesis by (rule assms(1))
  next
    case 2 then show ?thesis by (rule raise_for_status_msg)
  next
    case 3 with assms(2) show ?thesis by (rule decode_response_msg)
  qed
qed

lemma extract_answer_error: "extract_answer ev answer = Inr r \<Longrightarrow> error r = []"
  by (cases answer) (auto simp: extract_answer_def and_then_eq_Inr split: option.splits)

lemma try_row_error: "fst (try_row ev row file_text url token w) = Inr r \<Longrightarrow> error r = []"
  by (cases "build_payload row file_text")
     (auto simp: try_row_def decode_response_def and_then_eq_Inr dest: extract_answer_error)

lemma process_excel_row_fst:
  "row \<noteq> [] \<Longrightarrow>
   fst (process_excel_row ev row file_text url token w) =
     Inr (case fst (try_row ev row file_text url token w) of
            Inr r \<Rightarrow> r | Inl e \<Rightarrow> failed_result e)"
  by (cases row; cases "try_row ev row file_text url token w";
      cases "fst (try_row ev row file_text url token w)")
     (auto simp: process_excel_row_def tuple_item_def)

lemma example_loads_msg: "example_loads s = Inl e \<Longrightarrow> exn_str e \<noteq> []"
  by (auto simp: example_loads_def ascii_def split: if_splits)

lemma example_answer_search: "search_fenced example_answer = Some (10 # example_block @ [10])"
proof -
  have "\<not> sublist fence_open (ascii ''Result: '' @ butlast fence_open)"
    by (simp add: fence_open_def ascii_def sublist_Cons_right prefix_Cons)
  moreover have "96 \<notin> set ([10] @ example_block @ [10])"
    using example_block_facts(1) by simp
  ultimately have "search_fenced (ascii ''Result: '' @ fence_open @ ([10] @ example_block @ [10]) @ fence_close @ [])
      = Some ([10] @ example_block @ [10])"
    by (rule search_fenced_first)
  then show ?thesis by (simp add: example_answer_def)
qed

lemma example_answer_strip: "strip (10 # example_block @ [10]) = example_block"
proof -
  have sp: "\<forall>c \<in> set [10]. is_space c" by (simp add: is_space_def)
  have "strip ([10] @ example_block @ [10]) = example_block"
    using sp sp example_block_facts(2-4) by (rule strip_padded)
  then show ?thesis by simp
qed

lemma example_body_block: "example_body \<noteq> example_block"
  by (simp add: example_body_def example_block_def)

lemma example_response_decoded:
  "resp_text resp = example_body \<Longrightarrow>
   decode_response (example_env service rows) resp =
     Inr \<lparr>summary = [97, 10, 98], clause_numbers = ascii ''1.1'',
          clause_text = not_extracted, error = []\<rparr>"
  using example_body_block
  by (simp add: decode_response_def example_env_def example_loads_def answer_of_def
      extract_answer_def example_answer_search example_answer_strip example_payload_fields
      ascii_def)

lemma process_excel_row_returns:
  "row \<noteq> [] \<Longrightarrow> \<exists>result w1. process_excel_row ev row file_text url token w = (Inr result, w1)"
  by (cases row; cases "try_row ev row file_text url token w";
      cases "fst (try_row ev row file_text url token w)")
     (auto simp: process_excel_row_def tuple_item_def)

lemma try_row_build_failed:
  "build_payload row file_text = Inl e \<Longrightarrow> fst (try_row ev row file_text url token w) = Inl e"
  by (simp add: try_row_def)

lemma try_row_posted:
  "build_payload row file_text = Inr p \<Longrightarrow>
   fst (try_row ev row file_text url token w) =
     and_then (http_post ev (length (sent w)) (post_request url token p))
       (\<lambda>response. and_then (raise_for_status response) (\<lambda>u. decode_response ev response))"
  by (simp add: try_row_def)

lemma raise_for_status_cases:
  "(400 \<le> status_code r \<and> status_code r < 600 \<longrightarrow> (\<exists>e. raise_for_status r = Inl e)) \<and>
   (\<not> (400 \<le> status_code r \<and> status_code r < 600) \<longrightarrow> raise_for_status r = Inr ())"
  by (auto simp: raise_for_status_def)

text \<open>
  Claim C1, as amended.  On a row with at least one cell \<open>process_excel_row\<close> returns a
  result and raises nothing.  When a step of the \<open>try\<close> raises \<open>e\<close>, the three content
  fields are the sentinel \<open>'\u5904\u7406\u5931\u8d25'\<close> and the error field is \<open>str(e)\<close>;
  when no step raises, the result is the extracted one and its error field is empty.  The
  steps that raise are: building the payload, a failed or timed out post, a response with
  a status from 400 to 599 (a response with another status, 2xx or not, is decoded), a
  body that is not JSON, a missing \<open>data.outputs.Answer\<close> path, an answer without a fenced
  block, and a block that is not JSON.  When the messages of the library's exceptions are
  not empty, the error field is empty exactly when nothing was raised.
\<close>

theorem row_processor_outcome:
  assumes "row \<noteq> []"
  shows
   "(\<exists>result w1. process_excel_row ev row file_text url token w = (Inr result, w1)) \<and>
    (fst (try_row ev row file_text url token w) = Inl e \<longrightarrow>
       fst (process_excel_row ev row file_text url token w) =
         Inr \<lparr>summary = failure_sentinel, clause_numbers = failure_sentinel,
              clause_text = failure_sentinel, error = exn_str e\<rparr>) \<and>
    (fst (try_row ev row file_text url token w) = Inr r \<longrightarrow>
       fst (process_excel_row ev row file_text url token w) = Inr r \<and> error r = []) \<and>
    (build_payload row file_text = Inl e \<longrightarrow>
       fst (try_row ev row file_text url token w) = Inl e) \<and>
    (build_payload row file_text = Inr p \<and>
     http_post ev (length (sent w)) (post_request url token p) = Inl e \<longrightarrow>
       fst (try_row ev row file_text url token w) = Inl e) \<and>
    (build_payload row file_text = Inr p \<and>
     http_post ev (length (sent w)) (post_request url token p) = Inr resp \<and>
     400 \<le> status_code resp \<and> status_code resp < 600 \<longrightarrow>
       (\<exists>x. fst (try_row ev row file_text url token w) = Inl x)) \<and>
    (build_payload row file_text = Inr p \<and>
     http_post ev (length (sent w)) (post_request url token p) = Inr resp \<and>
     \<not> (400 \<le> status_code resp \<and> status_code resp < 600) \<longrightarrow>
       fst (try_row ev row file_text url token w) = decode_response ev resp) \<and>
    (json_loads ev (resp_text resp) = Inl e \<longrightarrow> decode_response ev resp = Inl e) \<and>
    (json_loads ev (resp_text resp) = Inr rd \<and> answer_of rd = Inl e \<longrightarrow>
       decode_response ev resp = Inl e) \<and>
    (map_of kvs (ascii ''data'') = None \<longrightarrow>
       answer_of (JDict kvs) = Inl (KeyError (quoted (ascii ''data'')))) \<and>
    (json_loads ev (resp_text resp) = Inr rd \<and> answer_of rd = Inr (JStr a) \<and>
     search_fenced a = None \<longrightarrow>
       decode_response ev resp = Inl (ValueError msg_no_json)) \<and>
    (json_loads ev (resp_text resp) = Inr rd \<and> answer_of rd = Inr (JStr a) \<and>
     search_fenced a = Some g \<and> json_loads ev (strip g) = Inl e \<longrightarrow>
       decode_response ev resp = Inl e) \<and>
    ((\<forall>n q x. http_post ev n q = Inl x \<longrightarrow> exn_str x \<noteq> []) \<and>
     (\<forall>s x. json_loads ev s = Inl x \<longrightarrow> exn_str x \<noteq> []) \<longrightarrow>
       (\<forall>result. fst (process_excel_row ev row file_text url token w) = Inr result \<longrightarrow>
          (error result = [] \<longleftrightarrow> (\<exists>x. fst (try_row ev row file_text url token w) = Inr x))))"
proof -
  let ?T = "fst (try_row ev row file_text url token w)"
  let ?R = "fst (process_excel_row ev row file_text url token w)"
  note R = process_excel_row_fst[OF assms, of ev file_text url token w]
  have 1: "\<exists>result w1. process_excel_row ev row file_text url token w = (Inr result, w1)"
    using assms by (rule process_excel_row_returns)
  have 2: "?T = Inl e \<longrightarrow> ?R = Inr \<lparr>summary = failure_sentinel, clause_numbers = failure_sentinel,
              clause_text = failure_sentinel, error = exn_str e\<rparr>"
    using R by (simp add: failed_result_def)
  have 3: "?T = Inr r \<longrightarrow> ?R = Inr r \<and> error r = []"
    using R try_row_error[of ev row file_text url token w r] by simp
  have 4: "build_payload row file_text = Inl e \<longrightarrow> ?T = Inl e"
    by (simp add: try_row_build_failed)
  have 5: "build_payload row file_text = Inr p \<and>
     http_post ev (length (sent w)) (post_request url token p) = Inl e \<longrightarrow> ?T = Inl e"
    by (simp add: try_row_posted)
  have 6: "build_payload row file_text = Inr p \<and>
     http_post ev (length (sent w)) (post_request url token p) = Inr resp \<and>
     400 \<le> status_code resp \<and> status_code resp < 600 \<longrightarrow> (\<exists>x. ?T = Inl x)"
    using raise_for_status_cases[of resp] by (auto simp: try_row_posted)
  have 7: "build_payload row file_text = Inr p \<and>
     http_post ev (length (sent w)) (post_request url token p) = Inr resp \<and>
     \<not> (400 \<le> status_code resp \<and> status_code resp < 600) \<longrightarrow> ?T = decode_response ev resp"
    using raise_for_status_cases[of resp] by (auto simp: try_row_posted)
  have 8: "json_loads ev (resp_text resp) = Inl e \<longrightarrow> decode_response ev resp = Inl e"
    by (simp add: decode_response_def)
  have 9: "json_loads ev (resp_text resp) = Inr rd \<and> answer_of rd = Inl e \<longrightarrow>
       decode_response ev resp = Inl e"
    by (simp add: decode_response_def)
  have 10: "map_of kvs (ascii ''data'') = None \<longrightarrow>
       answer_of (JDict kvs) = Inl (KeyError (quoted (ascii ''data'')))"
    by (simp add: answer_of_def)
  have 11: "json_loads ev (resp_text resp) = Inr rd \<and> answer_of rd = Inr (JStr a) \<and>
     search_fenced a = None \<longrightarrow> decode_response ev resp = Inl (ValueError msg_no_json)"
    by (simp add: decode_response_def extract_answer_def)
  have 12: "json_loads ev (resp_text resp) = Inr rd \<and> answer_of rd = Inr (JStr a) \<and>
     search_fenced a = Some g \<and> json_loads ev (strip g) = Inl e \<longrightarrow>
       decode_response ev resp = Inl e"
    by (simp add: decode_response_def extract_answer_def)
  have 13: "(\<forall>n q x. http_post ev n q = Inl x \<longrightarrow> exn_str x \<noteq> []) \<and>
     (\<forall>s x. json_loads ev s = Inl x \<longrightarrow> exn_str x \<noteq> []) \<longrightarrow>
       (\<forall>result. ?R = Inr result \<longrightarrow> (error result = [] \<longleftrightarrow> (\<exists>x. ?T = Inr x)))"
  proof (intro impI allI)
    fix result
    assume m: "(\<forall>n q x. http_post ev n q = Inl x \<longrightarrow> exn_str x \<noteq> []) \<and>
               (\<forall>s x. json_loads ev s = Inl x \<longrightarrow> exn_str x \<noteq> [])"
      and res: "?R = Inr result"
    show "error result = [] \<longleftrightarrow> (\<exists>x. ?T = Inr x)"
    proof (cases ?T)
      case (Inl x)
      have "exn_str x \<noteq> []"
      proof (rule try_row_msg[where ev = ev])
        show "\<And>n r e. http_post ev n r = Inl e \<Longrightarrow> exn_str e \<noteq> []" using m by blast
        show "\<And>s e. json_loads ev s = Inl e \<Longrightarrow> exn_str e \<noteq> []" using m by blast
        show "?T = Inl x" by (rule Inl)
      qed
      moreover have "result = failed_result x" using R res Inl by simp
      ultimately show ?thesis using Inl by (simp add: failed_result_def)
    next
      case (Inr x)
      then have "error x = []" by (rule try_row_error)
      moreover have "result = x" using R res Inr by simp
      ultimately show ?thesis using Inr by simp
    qed
  qed
  show ?thesis
    using 1 2 3 4 5 6 7 8 9 10 11 12 13 by (intro conjI)
qed

theorem row_processor_outcome_witness:
  "fst (process_excel_row (example_env service_timeout [])
          [CStr (ascii ''1.1''), CStr (ascii ''scope'')] (ascii ''doc'')
          (ascii ''http://service/run'') (ascii ''Bearer k'') world0)
     = Inr \<lparr>summary = failure_sentinel, clause_numbers = failure_sentinel,
            clause_text = failure_sentinel,
            error = ascii ''Read timed out. (read timeout=600)''\<rparr> \<and>
   fst (process_excel_row (example_env (service_status 200) [])
          [CStr (ascii ''1.1''), CStr (ascii ''scope'')] (ascii ''doc'')
          (ascii ''http://service/run'') (ascii ''Bearer k'') world0)
     = Inr \<lparr>summary = [97, 10, 98], clause_numbers = ascii ''1.1'',
            clause_text = not_extracted, error = []\<rparr>"
proof -
  let ?row = "[CStr (ascii ''1.1''), CStr (ascii ''scope'')]"
  let ?E1 = "example_env service_timeout []"
  let ?E2 = "example_env (service_status 200) []"
  let ?url = "ascii ''http://service/run''"
  let ?tok = "ascii ''Bearer k''"
  let ?e = "RequestException (ascii ''Read timed out. (read timeout=600)'')"
  let ?resp = "\<lparr>status_code = 200, reason = ascii ''-'', resp_url = ?url, resp_text = example_body\<rparr>"
  have ne: "?row \<noteq> []" by simp
  obtain p where p: "build_payload ?row (ascii ''doc'') = Inr p"
    by (simp add: build_payload_def query_data_def tuple_item_def json_dumps_indent4_def)
  have post1: "http_post ?E1 (length (sent world0)) (post_request ?url ?tok p) = Inl ?e"
    by (simp add: example_env_def service_timeout_def)
  have post2: "http_post ?E2 (length (sent world0)) (post_request ?url ?tok p) = Inr ?resp"
    by (simp add: example_env_def service_status_def post_request_def)
  have ok: "\<not> (400 \<le> status_code ?resp \<and> status_code ?resp < 600)" by simp
  have dec: "decode_response ?E2 ?resp = Inr \<lparr>summary = [97, 10, 98], clause_numbers = ascii ''1.1'',
          clause_text = not_extracted, error = []\<rparr>"
    by (rule example_response_decoded) simp
  note t1 = row_processor_outcome[OF ne, where ev = ?E1 and file_text = "ascii ''doc''"
      and url = ?url and token = ?tok and w = world0 and p = p and e = ?e]
  note t2 = row_processor_outcome[OF ne, where ev = ?E2 and file_text = "ascii ''doc''"
      and url = ?url and token = ?tok and w = world0 and p = p and resp = ?resp
      and r = "\<lparr>summary = [97, 10, 98], clause_numbers = ascii ''1.1'',
          clause_text = not_extracted, error = []\<rparr>"]
  have T1: "fst (try_row ?E1 ?row (ascii ''doc'') ?url ?tok world0) = Inl ?e"
    using t1 p post1 by blast
  have R1: "fst (process_excel_row ?E1 ?row (ascii ''doc'') ?url ?tok world0)
      = Inr \<lparr>summary = failure_sentinel, clause_numbers = failure_sentinel,
            clause_text = failure_sentinel, error = exn_str ?e\<rparr>"
    using t1 T1 by blast
  have T2: "fst (try_row ?E2 ?row (ascii ''doc'') ?url ?tok world0) = decode_response ?E2 ?resp"
    using t2 p post2 ok by blast
  have R2: "fst (process_excel_row ?E2 ?row (ascii ''doc'') ?url ?tok world0)
      = Inr \<lparr>summary = [97, 10, 98], clause_numbers = ascii ''1.1'',
          clause_text = not_extracted, error = []\<rparr>"
    using t2 T2 dec by metis
  show ?thesis using R1 R2 by simp
qed

text \<open>
  Claim C1 as stated fails.  A response with the status 300, which is not a 2xx status,
  and a well-formed body is processed like a successful one: the result is the extracted
  one, with an empty error.  And on a row without cells the handler, which formats
  \<open>row[0]\<close> into its log message, raises itself, so an exception leaves the function.
\<close>

theorem status_300_counterexample:
  "fst (process_excel_row (example_env (service_status 300) [])
          [CStr (ascii ''1.1''), CStr (ascii ''scope'')] (ascii ''doc'')
          (ascii ''http://service/run'') (ascii ''Bearer k'') world0)
     = Inr \<lparr>summary = [97, 10, 98], clause_numbers = ascii ''1.1'',
            clause_text = not_extracted, error = []\<rparr> \<and>
   \<not> (200 \<le> (300::nat) \<and> (300::nat) < 300) \<and>
   fst (process_excel_row (example_env service_timeout []) [] (ascii ''doc'')
          (ascii ''http://service/run'') (ascii ''Bearer k'') world0)
     = Inl (IndexError (ascii ''tuple index out of range''))"
proof -
  let ?row = "[CStr (ascii ''1.1''), CStr (ascii ''scope'')]"
  let ?E = "example_env (service_status 300) []"
  let ?url = "ascii ''http://service/run''"
  let ?tok = "ascii ''Bearer k''"
  obtain p where p: "build_payload ?row (ascii ''doc'') = Inr p"
    by (simp add: build_payload_def query_data_def tuple_item_def json_dumps_indent4_def)
  have "fst (try_row ?E ?row (ascii ''doc'') ?url ?tok world0)
      = decode_response ?E \<lparr>status_code = 300, reason = ascii ''-'', resp_url = ?url,
          resp_text = example_body\<rparr>"
    by (simp add: try_row_posted[OF p] example_env_def service_status_def post_request_def
        raise_for_status_def)
  also have "\<dots> = Inr \<lparr>summary = [97, 10, 98], clause_numbers = ascii ''1.1'',
          clause_text = not_extracted, error = []\<rparr>"
    by (rule example_response_decoded) simp
  finally have status: "fst (process_excel_row ?E ?row (ascii ''doc'') ?url ?tok world0)
      = Inr \<lparr>summary = [97, 10, 98], clause_numbers = ascii ''1.1'',
          clause_text = not_extracted, error = []\<rparr>"
    by (simp add: process_excel_row_fst)
  have "fst (process_excel_row (example_env service_timeout []) [] (ascii ''doc'') ?url ?tok world0)
      = Inl (IndexError (ascii ''tuple index out of range''))"
    by (simp add: process_excel_row_def try_row_def build_payload_def query_data_def
        tuple_item_def)
  with status show ?thesis by simp
qed


section \<open>Properties of the document runner and the pipeline\<close>
























end
